theory Spec2Isabelle
  imports Main "HOL-Library.Word"
begin

unbundle bit_operations_syntax

section \<open>Values shared by the whole SDK\<close>

subsection \<open>Bytes and strings\<close>

text \<open>
  A Go \<open>string\<close> is a sequence of bytes and so is an Isabelle \<open>string\<close> (a list of
  8-bit characters). \<open>[]byte(s)\<close> and \<open>string(b)\<close> copy the bytes unchanged.
\<close>

type_synonym byte = "8 word"

definition byte_of_char :: "char \<Rightarrow> byte" where
  "byte_of_char c = of_nat (of_char c)"

definition char_of_byte :: "byte \<Rightarrow> char" where
  "char_of_byte w = char_of (unat w)"

definition bytes_of_string :: "string \<Rightarrow> byte list" where
  "bytes_of_string s = map byte_of_char s"

definition string_of_bytes :: "byte list \<Rightarrow> string" where
  "string_of_bytes bs = map char_of_byte bs"

subsection \<open>Generic JSON values\<close>

text \<open>
  A JSON value as a text has it: an object keeps its members in the order of the text,
  repeated keys included. Numbers are the integers the SDK exchanges (request ids,
  nonces, error codes).
\<close>

datatype json =
    JNull
  | JBool bool
  | JNumber int
  | JString string
  | JArray "json list"
  | JObject "(string \<times> json) list"

subsection \<open>Errors\<close>

text \<open>types.go, \<open>JSONRPCError\<close>: the error object of a JSON-RPC response.\<close>

record JSONRPCError =
  Code :: int
  Message :: string
  Data :: json

text \<open>\<open>encoding/hex\<close>: \<open>InvalidByteError\<close> and \<open>ErrLength\<close>.\<close>

datatype hex_error = InvalidByteError char | ErrLength

text \<open>
  A Go \<open>error\<close> value. \<open>Errorf msg\<close> is \<open>fmt.Errorf(msg)\<close> with the verbs filled in,
  \<open>Wrapf prefix e\<close> is \<open>fmt.Errorf(prefix + "%w", e)\<close>, \<open>RPCErr\<close> is a \<open>*JSONRPCError\<close>
  returned as an error, \<open>HexErr\<close> an error of \<open>encoding/hex\<close>,
  \<open>UnmarshalTypeError v t f\<close> the error of \<open>encoding/json\<close> for a JSON value of kind
  \<open>v\<close> that does not fit the Go type \<open>t\<close> (of the struct field \<open>f\<close>, empty for the
  whole target), \<open>InvalidUnmarshalError\<close> its error for a nil target, and \<open>LibraryErr msg\<close> any other error of the standard library (HTTP, JSON
  syntax) with its message.
\<close>

datatype error =
    Errorf string
  | Wrapf string error
  | RPCErr JSONRPCError
  | HexErr hex_error
  | UnmarshalTypeError string string string
  | InvalidUnmarshalError
  | LibraryErr string

text \<open>A run-time panic of Go, and a call that either returns or panics.\<close>

datatype panic = DivideByZero | IndexOutOfRange

datatype 'a go = Returns 'a | Panics panic

section \<open>encoding/hex\<close>

definition hextable :: string where
  "hextable = ''0123456789abcdef''"

text \<open>\<open>hex.EncodeToString\<close>: two lower-case digits per byte, high nibble first.\<close>

fun hex_EncodeToString :: "byte list \<Rightarrow> string" where
  "hex_EncodeToString [] = []"
| "hex_EncodeToString (v # src) =
     hextable ! unat (drop_bit 4 v) # hextable ! unat (v AND 15) # hex_EncodeToString src"

text \<open>The \<open>reverseHexTable\<close> of the library: the value of a digit, \<open>None\<close> for 0xff.\<close>

definition fromHexChar :: "char \<Rightarrow> byte option" where
  "fromHexChar c =
     (let n = (of_char c :: nat) in
      if 48 \<le> n \<and> n \<le> 57 then Some (of_nat (n - 48))
      else if 97 \<le> n \<and> n \<le> 102 then Some (of_nat (n - 97 + 10))
      else if 65 \<le> n \<and> n \<le> 70 then Some (of_nat (n - 65 + 10))
      else None)"

text \<open>
  \<open>hex.DecodeString\<close>: pairs of digits, either case; the first invalid character is
  reported, and an odd length is reported after its last character has been checked.
\<close>

fun hex_DecodeString :: "string \<Rightarrow> hex_error + byte list" where
  "hex_DecodeString [] = Inr []"
| "hex_DecodeString [p] =
     (case fromHexChar p of None \<Rightarrow> Inl (InvalidByteError p) | Some a \<Rightarrow> Inl ErrLength)"
| "hex_DecodeString (p # q # rest) =
     (case fromHexChar p of
        None \<Rightarrow> Inl (InvalidByteError p)
      | Some a \<Rightarrow>
          (case fromHexChar q of
             None \<Rightarrow> Inl (InvalidByteError q)
           | Some b \<Rightarrow>
               (case hex_DecodeString rest of
                  Inl e \<Rightarrow> Inl e
                | Inr bs \<Rightarrow> Inr ((push_bit 4 a OR b) # bs))))"

section \<open>PrivacyManager: memo encryption\<close>

text \<open>
  The loop \<open>for i, b := range bytes { out[i] = b ^ secretBytes[i%len(secretBytes)] }\<close>
  of \<open>EncryptMemo\<close> and \<open>DecryptMemo\<close>. The remainder by a zero length panics.
\<close>

fun xor_range :: "byte list \<Rightarrow> byte list \<Rightarrow> nat \<Rightarrow> byte list \<Rightarrow> panic + byte list" where
  "xor_range secretBytes [] i out = Inr out"
| "xor_range secretBytes (b # rest) i out =
     (if length secretBytes = 0 then Inl DivideByZero
      else if length out \<le> i then Inl IndexOutOfRange
      else xor_range secretBytes rest (Suc i)
             (out[i := b XOR secretBytes ! (i mod length secretBytes)]))"

definition EncryptMemo :: "string \<Rightarrow> string \<Rightarrow> (error + string) go" where
  "EncryptMemo memo sharedSecret =
     (case hex_DecodeString sharedSecret of
        Inl err \<Rightarrow> Returns (Inl (Wrapf ''invalid shared secret: '' (HexErr err)))
      | Inr secretBytes \<Rightarrow>
          (let memoBytes = bytes_of_string memo;
               encrypted = replicate (length memoBytes) 0
           in case xor_range secretBytes memoBytes 0 encrypted of
                Inl p \<Rightarrow> Panics p
              | Inr encrypted' \<Rightarrow> Returns (Inr (hex_EncodeToString encrypted'))))"

definition DecryptMemo :: "string \<Rightarrow> string \<Rightarrow> (error + string) go" where
  "DecryptMemo encryptedMemo sharedSecret =
     (case hex_DecodeString encryptedMemo of
        Inl err \<Rightarrow> Returns (Inl (Wrapf ''invalid encrypted memo: '' (HexErr err)))
      | Inr encryptedBytes \<Rightarrow>
          (case hex_DecodeString sharedSecret of
             Inl err \<Rightarrow> Returns (Inl (Wrapf ''invalid shared secret: '' (HexErr err)))
           | Inr secretBytes \<Rightarrow>
               (let decrypted = replicate (length encryptedBytes) 0
                in case xor_range secretBytes encryptedBytes 0 decrypted of
                     Inl p \<Rightarrow> Panics p
                   | Inr decrypted' \<Rightarrow> Returns (Inr (string_of_bytes decrypted')))))"

text \<open>What the loop has written once it has run over \<open>bs\<close> from index \<open>i\<close>.\<close>

fun xor_stream :: "byte list \<Rightarrow> nat \<Rightarrow> byte list \<Rightarrow> byte list" where
  "xor_stream s i [] = []"
| "xor_stream s i (b # bs) = (b XOR s ! (i mod length s)) # xor_stream s (Suc i) bs"

section \<open>Address derivation\<close>

text \<open>
  \<open>sha256.Sum256\<close> belongs to the Go standard library, not to the SDK, and
  \<open>GenerateAddress\<close> uses nothing of it but its type: a function from bytes to a
  \<open>[32]byte\<close> array. It is a parameter of the model. The array is a 256-bit word read
  big-endian, so that its length is part of the type as it is in Go.
\<close>

type_synonym sum256 = "256 word"

definition array_bytes :: "sum256 \<Rightarrow> byte list" where
  "array_bytes h = map (\<lambda>k. ucast (drop_bit (8 * (31 - k)) h)) [0..<32]"

definition GenerateAddress :: "(byte list \<Rightarrow> sum256) \<Rightarrow> string \<Rightarrow> error + string" where
  "GenerateAddress sha256_Sum256 publicKey =
     (case hex_DecodeString publicKey of
        Inl err \<Rightarrow> Inl (Wrapf ''invalid public key hex: '' (HexErr err))
      | Inr pubKeyBytes \<Rightarrow>
          (let hash = array_bytes (sha256_Sum256 pubKeyBytes);
               address = ''chert_'' @ hex_EncodeToString (take 20 hash)
           in Inr address))"

section \<open>types.go\<close>

record Account =
  Address :: string
  PublicKey :: string
  PrivateKey :: string

record Balance =
  Available :: string
  Pending :: string
  Total :: string

record TransactionRequest =
  To :: string
  Amount :: string
  Fee :: string
  Memo :: string
  Nonce :: "64 word"

text \<open>
  \<open>Transaction\<close>. The fields it shares with \<open>TransactionRequest\<close> carry the suffix
  \<open>_tx\<close>; \<open>Timestamp\<close> is the instant of the \<open>time.Time\<close> in nanoseconds.
\<close>

record Transaction =
  Hash :: string
  From :: string
  To_tx :: string
  Amount_tx :: string
  Fee_tx :: string
  Memo_tx :: string
  BlockHeight :: "64 word"
  Status :: string
  Timestamp :: int
  Nonce_tx :: "64 word"

definition TxStatusPending :: string where "TxStatusPending = ''pending''"
definition TxStatusConfirmed :: string where "TxStatusConfirmed = ''confirmed''"
definition TxStatusFailed :: string where "TxStatusFailed = ''failed''"
definition TxStatusRejected :: string where "TxStatusRejected = ''rejected''"

text \<open>
  \<open>JSONRPCRequest\<close>. \<open>Params\<close> and \<open>ID\<close> are of type \<open>interface{}\<close>. For \<open>Params\<close>,
  \<open>None\<close> is the nil interface and \<open>Some v\<close> an interface that holds a value which
  \<open>json.Marshal\<close> writes as \<open>v\<close>; \<open>Some JNull\<close> is a nil pointer, map or slice, which is
  not the nil interface and is written as \<open>null\<close>. An object in \<open>v\<close> lists the fields of
  a struct in their declaration order and the entries of a map in key order, as
  \<open>json.Marshal\<close> writes them.
\<close>

record JSONRPCRequest =
  JSONRPC :: string
  Method :: string
  Params :: "json option"
  ID :: json

text \<open>\<open>JSONRPCResponse\<close>; \<open>JSONRPC\<close> and \<open>ID\<close> carry the suffix \<open>_resp\<close>.\<close>

record JSONRPCResponse =
  JSONRPC_resp :: string
  Result :: json
  Error :: "JSONRPCError option"
  ID_resp :: json

section \<open>encoding/json on the shapes the SDK uses\<close>

text \<open>
  \<open>encoding/json\<close> is the Go standard library. The model works on JSON values, not on
  their text, and follows the documentation of \<open>json.Marshal\<close> and \<open>json.Unmarshal\<close>:
  a struct is written as an object with its fields in declaration order under their tag
  names, a field tagged \<open>omitempty\<close> is left out when it is the nil interface, a map is
  written with its keys sorted, and every byte of a string that is not part of a valid
  UTF-8 sequence is written as U+FFFD. Reading a value into an \<open>interface{}\<close> makes a
  \<open>float64\<close> of a number and a map of an object, in which a repeated key keeps its last
  value. Reading an object into a struct goes through the members in order; a member
  whose value does not fit its field is skipped, the earliest such mismatch is remembered
  and returned as an \<open>UnmarshalTypeError\<close> at the end, and the members that fit are
  stored all the same. \<open>null\<close> leaves a string field as it is.
\<close>

definition json_kind :: "json \<Rightarrow> string" where
  "json_kind j =
     (case j of
        JNull \<Rightarrow> ''null''
      | JBool b \<Rightarrow> ''bool''
      | JNumber n \<Rightarrow> ''number''
      | JString s \<Rightarrow> ''string''
      | JArray xs \<Rightarrow> ''array''
      | JObject ms \<Rightarrow> ''object'')"

text \<open>\<open>d.saveError\<close>: only the first error is kept.\<close>

definition saveError :: "error option \<Rightarrow> error \<Rightarrow> error option" where
  "saveError saved e = (case saved of None \<Rightarrow> Some e | Some e0 \<Rightarrow> Some e0)"

subsection \<open>Numbers as float64\<close>

text \<open>
  The integer a \<open>float64\<close> holds for the integer \<open>n\<close>: \<open>n\<close> itself below \<open>2^53\<close> in
  magnitude, otherwise \<open>n\<close> rounded to 53 significant bits, ties to the even mantissa.
  (A number beyond the range of \<open>float64\<close> makes the decoder fail, so it is in no
  decoded value.)
\<close>

function bit_length :: "int \<Rightarrow> nat" where
  "bit_length n = (if n \<le> 0 then 0 else Suc (bit_length (n div 2)))"
  by pat_completeness auto
termination
  by (relation "measure nat") auto

definition float64 :: "int \<Rightarrow> int" where
  "float64 n =
     (let m = \<bar>n\<bar> in
      if m < 2 ^ 53 then n
      else
        let e = bit_length m - 53;
            q = m div 2 ^ e;
            r = m mod 2 ^ e;
            half = 2 ^ (e - 1);
            q' = (if half < r \<or> (r = half \<and> odd q) then q + 1 else q)
        in sgn n * (q' * 2 ^ e))"

subsection \<open>Strings as UTF-8\<close>

text \<open>
  \<open>utf8.DecodeRuneInString\<close>: the length of the valid sequence that starts with the byte
  \<open>c\<close> and goes on in \<open>rest\<close>, or \<open>None\<close> where the library returns \<open>RuneError\<close> with
  size 1. \<open>multi sz lo hi rest\<close> says that \<open>rest\<close> holds the \<open>sz - 1\<close> further bytes, the
  first of them between \<open>lo\<close> and \<open>hi\<close> and the others continuation bytes.
\<close>

definition multi :: "nat \<Rightarrow> nat \<Rightarrow> nat \<Rightarrow> string \<Rightarrow> bool" where
  "multi sz lo hi rest =
     (sz - 1 \<le> length rest
      \<and> lo \<le> of_char (rest ! 0) \<and> of_char (rest ! 0) \<le> hi
      \<and> (sz < 3 \<or> 128 \<le> (of_char (rest ! 1) :: nat) \<and> (of_char (rest ! 1) :: nat) \<le> 191)
      \<and> (sz < 4 \<or> 128 \<le> (of_char (rest ! 2) :: nat) \<and> (of_char (rest ! 2) :: nat) \<le> 191))"

definition rune_len :: "char \<Rightarrow> string \<Rightarrow> nat option" where
  "rune_len c rest =
     (let b = (of_char c :: nat) in
      if b < 128 then Some 1
      else if 194 \<le> b \<and> b \<le> 223 then (if multi 2 128 191 rest then Some 2 else None)
      else if b = 224 then (if multi 3 160 191 rest then Some 3 else None)
      else if (225 \<le> b \<and> b \<le> 236) \<or> b = 238 \<or> b = 239 then
        (if multi 3 128 191 rest then Some 3 else None)
      else if b = 237 then (if multi 3 128 159 rest then Some 3 else None)
      else if b = 240 then (if multi 4 144 191 rest then Some 4 else None)
      else if 241 \<le> b \<and> b \<le> 243 then (if multi 4 128 191 rest then Some 4 else None)
      else if b = 244 then (if multi 4 128 143 rest then Some 4 else None)
      else None)"

text \<open>
  A string as \<open>json.Marshal\<close> writes it: each byte that starts no valid sequence
  becomes the three bytes of U+FFFD. Escapes are a matter of the text and leave the value
  as it is. A string is valid UTF-8 when it is written unchanged.
\<close>

fun utf8_coerce :: "string \<Rightarrow> string" where
  "utf8_coerce [] = []"
| "utf8_coerce (c # rest) =
     (case rune_len c rest of
        None \<Rightarrow> CHR 0xEF # CHR 0xBF # CHR 0xBD # utf8_coerce rest
      | Some n \<Rightarrow> c # take (n - 1) rest @ utf8_coerce (drop (n - 1) rest))"


primrec coerce_json :: "json \<Rightarrow> json" where
  "coerce_json JNull = JNull"
| "coerce_json (JBool b) = JBool b"
| "coerce_json (JNumber n) = JNumber n"
| "coerce_json (JString s) = JString (utf8_coerce s)"
| "coerce_json (JArray xs) = JArray (map coerce_json xs)"
| "coerce_json (JObject ms) = JObject (map (map_prod utf8_coerce coerce_json) ms)"

subsection \<open>Objects as maps\<close>

text \<open>
  The order of Go strings (byte by byte); the entries of a map in key order, where a
  repeated key has kept its last value; and the value that comes back when a JSON value
  is read into an \<open>interface{}\<close> and written again: strings and keys with their invalid
  bytes replaced, numbers as \<open>float64\<close>, objects as maps.
\<close>

fun string_less :: "string \<Rightarrow> string \<Rightarrow> bool" where
  "string_less [] [] = False"
| "string_less [] (y # ys) = True"
| "string_less (x # xs) [] = False"
| "string_less (x # xs) (y # ys) =
     ((of_char x :: nat) < of_char y \<or> (x = y \<and> string_less xs ys))"

fun insert_key :: "string \<times> json \<Rightarrow> (string \<times> json) list \<Rightarrow> (string \<times> json) list" where
  "insert_key m [] = [m]"
| "insert_key m (e # es) = (if string_less (fst m) (fst e) then m # e # es else e # insert_key m es)"

fun go_map :: "(string \<times> json) list \<Rightarrow> (string \<times> json) list" where
  "go_map [] = []"
| "go_map (m # ms) = (if fst m \<in> set (map fst ms) then go_map ms else insert_key m (go_map ms))"

primrec canonical :: "json \<Rightarrow> json" where
  "canonical JNull = JNull"
| "canonical (JBool b) = JBool b"
| "canonical (JNumber n) = JNumber (float64 n)"
| "canonical (JString s) = JString (utf8_coerce s)"
| "canonical (JArray xs) = JArray (map canonical xs)"
| "canonical (JObject ms) = JObject (go_map (map (map_prod utf8_coerce canonical) ms))"

text \<open>
  \<open>json.Marshal(rpcResp.Result)\<close>: \<open>Result\<close> is what the decoder has read from the
  result member of the body into an \<open>interface{}\<close>, so what is written is the canonical
  form of that member. This cannot fail.
\<close>

definition json_Marshal :: "json \<Rightarrow> error + json" where
  "json_Marshal v = Inr (canonical v)"

text \<open>\<open>json.Marshal\<close> of a \<open>JSONRPCRequest\<close>.\<close>

definition json_Marshal_request :: "JSONRPCRequest \<Rightarrow> error + json" where
  "json_Marshal_request r =
     Inr (JObject
       ([(''jsonrpc'', JString (utf8_coerce (JSONRPC r))),
         (''method'', JString (utf8_coerce (Method r)))]
        @ (case Params r of None \<Rightarrow> [] | Some v \<Rightarrow> [(''params'', coerce_json v)])
        @ [(''id'', coerce_json (ID r))]))"



text \<open>
  Reading into a \<open>Balance\<close>. A key and a string value are read with their invalid bytes
  replaced. Field names are matched exactly or, failing that, without regard to case. The tags of
  \<open>Balance\<close> are ASCII letters other than k and s, so folding ASCII case is the whole of
  the library's case folding for them.
\<close>

definition ascii_lower :: "char \<Rightarrow> char" where
  "ascii_lower c =
     (let n = (of_char c :: nat) in if 65 \<le> n \<and> n \<le> 90 then char_of (n + 32) else c)"

definition Balance_field :: "string \<Rightarrow> string option" where
  "Balance_field k =
     (let f = map ascii_lower k
      in if f = ''available'' \<or> f = ''pending'' \<or> f = ''total'' then Some f else None)"

definition Balance_store :: "string \<Rightarrow> string \<Rightarrow> Balance \<Rightarrow> Balance" where
  "Balance_store f s b =
     (if f = ''available'' then b\<lparr>Available := s\<rparr>
      else if f = ''pending'' then b\<lparr>Pending := s\<rparr>
      else b\<lparr>Total := s\<rparr>)"

definition Balance_member ::
  "error option \<times> Balance \<Rightarrow> string \<times> json \<Rightarrow> error option \<times> Balance" where
  "Balance_member st m =
     (case st of (saved, b) \<Rightarrow>
      case m of (k, v) \<Rightarrow>
        (case Balance_field (utf8_coerce k) of
           None \<Rightarrow> (saved, b)
         | Some f \<Rightarrow>
             (case v of
                JString s \<Rightarrow> (saved, Balance_store f (utf8_coerce s) b)
              | JNull \<Rightarrow> (saved, b)
              | _ \<Rightarrow> (saveError saved
                       (UnmarshalTypeError (json_kind v) ''string'' (''Balance.'' @ f)), b))))"

definition json_Unmarshal_Balance :: "json \<Rightarrow> Balance \<Rightarrow> error option \<times> Balance" where
  "json_Unmarshal_Balance j b =
     (case j of
        JNull \<Rightarrow> (None, b)
      | JObject members \<Rightarrow> foldl Balance_member (None, b) members
      | _ \<Rightarrow> (Some (UnmarshalTypeError (json_kind j) ''chert.Balance'' []), b))"

text \<open>
  A \<open>map[string]interface{}\<close>: \<open>None\<close> is the nil map, otherwise the entries, one per
  key. \<open>mapassign\<close> is \<open>m[k] = v\<close>, \<open>mapaccess\<close> is \<open>m[k]\<close> with its \<open>ok\<close>; reading a nil
  map finds nothing.
\<close>

type_synonym gomap = "(string \<times> json) list option"

fun mapassign :: "string \<Rightarrow> json \<Rightarrow> (string \<times> json) list \<Rightarrow> (string \<times> json) list" where
  "mapassign k v [] = [(k, v)]"
| "mapassign k v (e # es) = (if fst e = k then (k, v) # es else e # mapassign k v es)"

definition mapaccess :: "gomap \<Rightarrow> string \<Rightarrow> json option" where
  "mapaccess m k = (case m of None \<Rightarrow> None | Some es \<Rightarrow> map_of es k)"

text \<open>
  Reading into a map: an object is stored member by member into the map (a new one when
  it was nil), each value as an \<open>interface{}\<close> holds it; \<open>null\<close> makes the map nil,
  anything else is a type error.
\<close>

definition json_Unmarshal_map :: "json \<Rightarrow> gomap \<Rightarrow> error option \<times> gomap" where
  "json_Unmarshal_map j m =
     (case j of
        JNull \<Rightarrow> (None, None)
      | JObject members \<Rightarrow>
          (None, Some (foldl (\<lambda>es kv. mapassign (utf8_coerce (fst kv)) (canonical (snd kv)) es)
                         (case m of None \<Rightarrow> [] | Some es \<Rightarrow> es) members))
      | _ \<Rightarrow> (Some (UnmarshalTypeError (json_kind j) ''map[string]interface {}'' []), m))"

text \<open>
  The \<open>result interface{}\<close> argument of \<open>Call\<close>: nil, or a pointer to a \<open>Balance\<close>
  (\<open>GetBalance\<close>) or to a \<open>map[string]interface{}\<close> (\<open>SendTransaction\<close>), with the value
  it points to.
\<close>

datatype slot = NilSlot | BalanceSlot Balance | MapSlot gomap

definition json_Unmarshal :: "json \<Rightarrow> slot \<Rightarrow> error option \<times> slot" where
  "json_Unmarshal j result =
     (case result of
        NilSlot \<Rightarrow> (Some InvalidUnmarshalError, NilSlot)
      | BalanceSlot b \<Rightarrow>
          (case json_Unmarshal_Balance j b of (err, b') \<Rightarrow> (err, BalanceSlot b'))
      | MapSlot m \<Rightarrow>
          (case json_Unmarshal_map j m of (err, m') \<Rightarrow> (err, MapSlot m')))"

section \<open>RPCClient\<close>

text \<open>
  What the endpoint does with a request body: \<open>http.NewRequestWithContext\<close> fails,
  \<open>client.Do\<close> fails, the response body does not decode into a \<open>JSONRPCResponse\<close>, or
  it decodes into one. A node maps the posted body to that outcome.
\<close>

datatype exchange =
    NewRequestFails string
  | DoFails string
  | DecodeFails string
  | Decoded JSONRPCResponse

type_synonym node = "json \<Rightarrow> exchange"

text \<open>What a call does besides returning: signing, and posting a body to the node.\<close>

datatype event = Signed | Posted json

definition new_request :: "string \<Rightarrow> json option \<Rightarrow> JSONRPCRequest" where
  "new_request method params = \<lparr>JSONRPC = ''2.0'', Method = method, Params = params, ID = JNumber 1\<rparr>"

text \<open>
  \<open>Call\<close>: the error returned, the result slot afterwards, and the bodies posted.
\<close>

definition Call ::
  "node \<Rightarrow> string \<Rightarrow> json option \<Rightarrow> slot \<Rightarrow> error option \<times> slot \<times> event list" where
  "Call node method params result =
     (let request = new_request method params in
      case json_Marshal_request request of
        Inl err \<Rightarrow> (Some (Wrapf ''failed to marshal RPC request: '' err), result, [])
      | Inr requestBody \<Rightarrow>
          (case node requestBody of
             NewRequestFails msg \<Rightarrow>
               (Some (Wrapf ''failed to create RPC request: '' (LibraryErr msg)), result, [])
           | DoFails msg \<Rightarrow>
               (Some (Wrapf ''RPC request failed: '' (LibraryErr msg)), result,
                [Posted requestBody])
           | DecodeFails msg \<Rightarrow>
               (Some (Wrapf ''failed to decode RPC response: '' (LibraryErr msg)), result,
                [Posted requestBody])
           | Decoded rpcResp \<Rightarrow>
               (case Error rpcResp of
                  Some rpcErr \<Rightarrow> (Some (RPCErr rpcErr), result, [Posted requestBody])
                | None \<Rightarrow>
                    if result \<noteq> NilSlot \<and> Result rpcResp \<noteq> JNull then
                      (case json_Marshal (Result rpcResp) of
                         Inl err \<Rightarrow>
                           (Some (Wrapf ''failed to marshal RPC result: '' err), result,
                            [Posted requestBody])
                       | Inr resultBytes \<Rightarrow>
                           (case json_Unmarshal resultBytes result of
                              (err, result') \<Rightarrow> (err, result', [Posted requestBody])))
                    else (None, result, [Posted requestBody]))))"

section \<open>WalletManager\<close>

text \<open>
  \<open>signTransaction\<close>: the mock signature; \<open>txid\<close> is the string \<open>GenerateTxID\<close> draws
  from \<open>uuid.New\<close>.
\<close>

definition signTransaction :: "string \<Rightarrow> TransactionRequest \<Rightarrow> string \<Rightarrow> error + string" where
  "signTransaction txid request privateKey = Inr (''mock_signature_'' @ txid)"

text \<open>
  The \<open>tx\<close> map of \<open>SendTransaction\<close> as \<open>json.Marshal\<close> writes it, keys sorted.
\<close>

definition tx_payload :: "TransactionRequest \<Rightarrow> Account \<Rightarrow> string \<Rightarrow> json" where
  "tx_payload request account signature =
     JObject
       ([(''amount'', JString (Amount request)), (''fee'', JString (Fee request))]
        @ (if Memo request \<noteq> [] then [(''memo'', JString (Memo request))] else [])
        @ [(''nonce'', JNumber (uint (Nonce request))),
           (''recipient'', JString (To request)),
           (''sender'', JString (Address account)),
           (''signature'', JString signature)])"

definition SendTransaction ::
  "node \<Rightarrow> string \<Rightarrow> TransactionRequest \<Rightarrow> Account \<Rightarrow> (error + string) \<times> event list" where
  "SendTransaction node txid request account =
     (if PrivateKey account = [] then (Inl (Errorf ''account does not have a private key''), [])
      else
        case signTransaction txid request (PrivateKey account) of
          Inl err \<Rightarrow> (Inl (Wrapf ''failed to sign transaction: '' err), [Signed])
        | Inr signature \<Rightarrow>
            (let tx = tx_payload request account signature in
             case Call node ''sendTransaction'' (Some (JArray [tx])) (MapSlot None) of
               (Some err, result, posted) \<Rightarrow> (Inl err, Signed # posted)
             | (None, result, posted) \<Rightarrow>
                 (case result of
                    MapSlot m \<Rightarrow>
                      (case mapaccess m ''hash'' of
                         Some (JString txHash) \<Rightarrow> (Inr txHash, Signed # posted)
                       | _ \<Rightarrow> (Inl (Errorf ''invalid transaction response''), Signed # posted))
                  | _ \<Rightarrow> (Inl (Errorf ''invalid transaction response''), Signed # posted))))"

text \<open>
  \<open>WaitForTransaction\<close>. \<open>GetTransaction txHash k\<close> is what the call of
  \<open>client.GetTransaction\<close> number \<open>k\<close> (from 0) returns: the transaction it points to and
  the error. The loop may run forever, so its result is an option: \<open>None\<close> is a call that
  never returns. A returning call gives the result, the number of fetches made and the
  final value of \<open>startTime\<close>.
\<close>

type_synonym fetch = "string \<Rightarrow> nat \<Rightarrow> Transaction \<times> error option"

partial_function (option) wait_loop ::
  "(nat \<Rightarrow> Transaction \<times> error option) \<Rightarrow> 64 word \<Rightarrow> nat \<Rightarrow> 64 word
     \<Rightarrow> ((error + Transaction) \<times> nat \<times> 64 word) option" where
  "wait_loop get timeoutMs polls startTime =
     (if startTime < timeoutMs then
        (case get polls of
           (tx, Some err) \<Rightarrow> wait_loop get timeoutMs (Suc polls) startTime
         | (tx, None) \<Rightarrow>
             if Status tx = TxStatusConfirmed then Some (Inr tx, Suc polls, startTime)
             else if Status tx = TxStatusFailed \<or> Status tx = TxStatusRejected then
               Some (Inl (Errorf (''transaction '' @ Status tx)), Suc polls, startTime)
             else wait_loop get timeoutMs (Suc polls) (startTime + 2000))
      else Some (Inl (Errorf ''transaction confirmation timeout''), polls, startTime))"

definition WaitForTransaction ::
  "fetch \<Rightarrow> string \<Rightarrow> 64 word \<Rightarrow> ((error + Transaction) \<times> nat \<times> 64 word) option" where
  "WaitForTransaction GetTransaction txHash timeoutMs =
     wait_loop (GetTransaction txHash) (if timeoutMs = 0 then 60000 else timeoutMs) 0 0"

text \<open>
  A fetch that ends the loop, and the value of \<open>startTime\<close> before fetch number \<open>n\<close> of a
  loop that has got that far.
\<close>

definition terminal :: "Transaction \<times> error option \<Rightarrow> bool" where
  "terminal r =
     (snd r = None
      \<and> (Status (fst r) = TxStatusConfirmed \<or> Status (fst r) = TxStatusFailed
           \<or> Status (fst r) = TxStatusRejected))"

fun elapsed :: "(nat \<Rightarrow> Transaction \<times> error option) \<Rightarrow> nat \<Rightarrow> 64 word" where
  "elapsed get 0 = 0"
| "elapsed get (Suc n) = (if snd (get n) = None then elapsed get n + 2000 else elapsed get n)"

section \<open>Notions used to state the properties\<close>










section \<open>Sample accounts, requests and nodes\<close>

definition node_rpc_error :: node where
  "node_rpc_error body =
     Decoded \<lparr>JSONRPC_resp = ''2.0'', Result = JNull,
              Error = Some \<lparr>Code = - 32601, Message = ''Method not found'', Data = JNull\<rparr>,
              ID_resp = JNumber 1\<rparr>"


definition watch_only_A :: Account where
  "watch_only_A = \<lparr>Address = ''addrA'', PublicKey = ''00'', PrivateKey = []\<rparr>"

definition request_B :: TransactionRequest where
  "request_B = \<lparr>To = ''addrB'', Amount = ''100.0'', Fee = ''0.1'', Memo = [], Nonce = 0\<rparr>"

definition node_hash :: node where
  "node_hash body =
     Decoded \<lparr>JSONRPC_resp = ''2.0'', Result = JObject [(''hash'', JString ''0xabc'')],
              Error = None, ID_resp = JNumber 1\<rparr>"





definition never_found :: fetch where
  "never_found txHash k =
     (\<lparr>Hash = [], From = [], To_tx = [], Amount_tx = [], Fee_tx = [], Memo_tx = [],
       BlockHeight = 0, Status = [], Timestamp = 0, Nonce_tx = 0\<rparr>,
      Some (RPCErr \<lparr>Code = - 32000, Message = ''transaction not found'', Data = JNull\<rparr>))"

definition tx_with_status :: "string \<Rightarrow> Transaction" where
  "tx_with_status st =
     \<lparr>Hash = ''0xabc'', From = ''addrA'', To_tx = ''addrB'', Amount_tx = ''100.0'',
      Fee_tx = ''0.1'', Memo_tx = [], BlockHeight = 7, Status = st, Timestamp = 0,
      Nonce_tx = 0\<rparr>"

definition confirmed_on_third_fetch :: fetch where
  "confirmed_on_third_fetch txHash k =
     (if k = 0 then (tx_with_status [], Some (LibraryErr ''connection refused''))
      else if k = 1 then (tx_with_status ''pending'', None)
      else (tx_with_status ''confirmed'', None))"

definition failed_on_first_fetch :: fetch where
  "failed_on_first_fetch txHash k = (tx_with_status ''failed'', None)"

definition always_pending :: fetch where
  "always_pending txHash k = (tx_with_status ''pending'', None)"

section \<open>Properties of the hex codec and of memo encryption\<close>

lemma unat_byte_less: "unat (w::byte) < 256"
  using unsigned_less [of w, where ?'a = nat] by simp

lemma byte_of_char_of_byte: "byte_of_char (char_of_byte w) = w"
  using unat_byte_less [of w] unfolding char_of_byte_def byte_of_char_def by simp

lemma char_of_byte_of_char: "char_of_byte (byte_of_char c) = c"
  unfolding char_of_byte_def byte_of_char_def by (simp add: unat_of_nat)

lemma string_of_bytes_of_string: "string_of_bytes (bytes_of_string s) = s"
  unfolding string_of_bytes_def bytes_of_string_def
  by (simp add: char_of_byte_of_char comp_def)

lemma fifteen_mask: "(15::byte) = mask 4"
  by (simp add: mask_eq_exp_minus_1)

lemma nibbles_join: "push_bit 4 (drop_bit 4 (w::byte)) OR (w AND 15) = w"
  unfolding fifteen_mask by (rule bit_eqI) (auto simp add: bit_simps)

lemma high_nibble_less: "unat (drop_bit 4 (w::byte)) < 16"
  using unat_byte_less [of w] by (simp add: unat_drop_bit_eq drop_bit_eq_div unat_div)

lemma low_nibble_less: "unat ((w::byte) AND 15) < 16"
  unfolding fifteen_mask
  by (simp add: flip: take_bit_eq_mask) (simp add: unsigned_take_bit_eq take_bit_eq_mod unat_mod)

lemma less_16_cases: "n < 16 \<Longrightarrow> n \<in> {0, 1, 2, 3, 4, 5, 6, 7, 8, 9, 10, 11, 12, 13, 14, 15::nat}"
  by simp arith

lemma fromHexChar_hextable_nat: "n < 16 \<Longrightarrow> fromHexChar (hextable ! n) = Some (of_nat n)"
  by (drule less_16_cases) (auto simp add: fromHexChar_def hextable_def)

lemma fromHexChar_hextable: "unat (w::byte) < 16 \<Longrightarrow> fromHexChar (hextable ! unat w) = Some w"
  by (simp add: fromHexChar_hextable_nat)

lemma hex_Decode_Encode: "hex_DecodeString (hex_EncodeToString bs) = Inr bs"
  by (induction bs) (simp_all add: fromHexChar_hextable high_nibble_less low_nibble_less nibbles_join)

lemma length_hex_EncodeToString: "length (hex_EncodeToString bs) = 2 * length bs"
  by (induction bs) simp_all

lemma hex_EncodeToString_inject:
  "hex_EncodeToString xs = hex_EncodeToString ys \<longleftrightarrow> xs = ys"
proof
  assume "hex_EncodeToString xs = hex_EncodeToString ys"
  then have "hex_DecodeString (hex_EncodeToString xs) = hex_DecodeString (hex_EncodeToString ys)"
    by simp
  then show "xs = ys" by (simp add: hex_Decode_Encode)
qed simp

lemma hex_DecodeString_Nil_iff: "hex_DecodeString s = Inr [] \<longleftrightarrow> s = []"
  by (induction s rule: hex_DecodeString.induct) (auto split: option.splits sum.splits)

lemma xor_range_stream:
  "s \<noteq> [] \<Longrightarrow> i + length bs \<le> length out \<Longrightarrow>
   xor_range s bs i out = Inr (take i out @ xor_stream s i bs @ drop (i + length bs) out)"
proof (induction bs arbitrary: i out)
  case Nil
  then show ?case by simp
next
  case (Cons b bs)
  let ?v = "b XOR s ! (i mod length s)"
  from Cons.prems have i: "i < length out" by simp
  have "xor_range s (b # bs) i out = xor_range s bs (Suc i) (out[i := ?v])"
    using Cons.prems i by simp
  also have "\<dots> = Inr (take (Suc i) (out[i := ?v]) @ xor_stream s (Suc i) bs
                         @ drop (Suc i + length bs) (out[i := ?v]))"
    using Cons.prems by (intro Cons.IH) simp_all
  also have "take (Suc i) (out[i := ?v]) = take i out @ [?v]"
    using i by (simp add: take_Suc_conv_app_nth)
  also have "drop (Suc i + length bs) (out[i := ?v]) = drop (i + length (b # bs)) out"
    by simp
  finally show ?case by simp
qed

lemma xor_stream_involution: "xor_stream s i (xor_stream s i bs) = bs"
  by (induction bs arbitrary: i) (simp_all add: xor.assoc)

lemma xor_range_whole:
  "s \<noteq> [] \<Longrightarrow> xor_range s bs 0 (replicate (length bs) 0) = Inr (xor_stream s 0 bs)"
  by (simp add: xor_range_stream)

lemma xor_range_empty_secret: "bs \<noteq> [] \<Longrightarrow> xor_range [] bs i out = Inl DivideByZero"
  by (cases bs) simp_all

text \<open>
  C9: for every memo and every shared secret that is valid hex and decodes to at least one
  byte, \<open>EncryptMemo\<close> returns a ciphertext and \<open>DecryptMemo\<close> of that ciphertext
  under the same secret returns the original memo.
\<close>

theorem EncryptMemo_DecryptMemo_roundtrip:
  assumes "hex_DecodeString sharedSecret = Inr secretBytes" and "secretBytes \<noteq> []"
  shows "\<exists>encrypted. EncryptMemo memo sharedSecret = Returns (Inr encrypted)
           \<and> DecryptMemo encrypted sharedSecret = Returns (Inr memo)"
proof -
  let ?enc = "hex_EncodeToString (xor_stream secretBytes 0 (bytes_of_string memo))"
  have e: "EncryptMemo memo sharedSecret = Returns (Inr ?enc)"
    using assms by (simp add: EncryptMemo_def xor_range_whole)
  have "DecryptMemo ?enc sharedSecret = Returns (Inr memo)"
    using assms
    by (simp add: DecryptMemo_def hex_Decode_Encode xor_range_whole xor_stream_involution
        string_of_bytes_of_string)
  with e show ?thesis by blast
qed

theorem EncryptMemo_DecryptMemo_roundtrip_witness:
  "hex_DecodeString ''0a'' = Inr [10] \<and> [10 :: byte] \<noteq> []
   \<and> (\<exists>encrypted. EncryptMemo ''hi'' ''0a'' = Returns (Inr encrypted)
          \<and> DecryptMemo encrypted ''0a'' = Returns (Inr ''hi''))"
proof -
  have d: "hex_DecodeString ''0a'' = Inr [10]"
    by (simp add: fromHexChar_def)
  have n: "[10 :: byte] \<noteq> []" by simp
  show ?thesis
    using d n EncryptMemo_DecryptMemo_roundtrip [OF d n, of "''hi''"] by simp
qed

text \<open>
  C10: \<open>EncryptMemo\<close> and \<open>DecryptMemo\<close> never panic when the shared secret does not
  decode to zero bytes (a secret that is not valid hex is an error result); with a secret
  that decodes to zero bytes, which only the empty string does, a non-empty memo
  (for \<open>DecryptMemo\<close>: a ciphertext decoding to at least one byte) makes them panic with
  an integer division by zero instead of returning an error.
\<close>

theorem memo_faults_only_on_empty_secret:
  "(hex_DecodeString sharedSecret \<noteq> Inr [] \<longrightarrow>
      EncryptMemo memo sharedSecret \<noteq> Panics p \<and> DecryptMemo encryptedMemo sharedSecret \<noteq> Panics p)
   \<and> (hex_DecodeString sharedSecret = Inr [] \<and> memo \<noteq> [] \<longrightarrow>
      EncryptMemo memo sharedSecret = Panics DivideByZero)
   \<and> (hex_DecodeString sharedSecret = Inr [] \<and> hex_DecodeString encryptedMemo = Inr encryptedBytes
        \<and> encryptedBytes \<noteq> [] \<longrightarrow>
      DecryptMemo encryptedMemo sharedSecret = Panics DivideByZero)
   \<and> (hex_DecodeString sharedSecret = Inr [] \<longleftrightarrow> sharedSecret = [])"
proof (intro conjI impI)
  assume a: "hex_DecodeString sharedSecret \<noteq> Inr []"
  show "EncryptMemo memo sharedSecret \<noteq> Panics p"
    using a by (auto simp add: EncryptMemo_def xor_range_whole split: sum.splits)
  show "DecryptMemo encryptedMemo sharedSecret \<noteq> Panics p"
    using a by (auto simp add: DecryptMemo_def xor_range_whole split: sum.splits)
next
  assume "hex_DecodeString sharedSecret = Inr [] \<and> memo \<noteq> []"
  then show "EncryptMemo memo sharedSecret = Panics DivideByZero"
    by (simp add: EncryptMemo_def bytes_of_string_def xor_range_empty_secret)
next
  assume "hex_DecodeString sharedSecret = Inr [] \<and> hex_DecodeString encryptedMemo = Inr encryptedBytes
        \<and> encryptedBytes \<noteq> []"
  then show "DecryptMemo encryptedMemo sharedSecret = Panics DivideByZero"
    by (simp add: DecryptMemo_def xor_range_empty_secret)
next
  show "hex_DecodeString sharedSecret = Inr [] \<longleftrightarrow> sharedSecret = []"
    by (rule hex_DecodeString_Nil_iff)
qed

theorem memo_faults_only_on_empty_secret_witness:
  "hex_DecodeString ''0a'' \<noteq> Inr []
   \<and> EncryptMemo ''hi'' ''0a'' \<noteq> Panics DivideByZero
   \<and> DecryptMemo ''6263'' ''0a'' \<noteq> Panics DivideByZero
   \<and> hex_DecodeString [] = Inr [] \<and> ''hi'' \<noteq> []
   \<and> EncryptMemo ''hi'' [] = Panics DivideByZero
   \<and> hex_DecodeString ''6263'' = Inr [98, 99] \<and> [98, 99 :: byte] \<noteq> []
   \<and> DecryptMemo ''6263'' [] = Panics DivideByZero"
proof -
  have a: "hex_DecodeString ''0a'' \<noteq> Inr []"
    by (simp add: fromHexChar_def)
  have b: "hex_DecodeString [] = Inr [] \<and> ''hi'' \<noteq> []"
    by simp
  have c: "hex_DecodeString ''6263'' = Inr [98, 99]"
    by (simp add: fromHexChar_def)
  have c': "hex_DecodeString [] = Inr [] \<and> hex_DecodeString ''6263'' = Inr [98, 99]
        \<and> [98, 99 :: byte] \<noteq> []"
    using c by simp
  show ?thesis
    using a b c c'
      memo_faults_only_on_empty_secret
        [of "''0a''" "''hi''" DivideByZero "''6263''" "[98, 99]"]
      memo_faults_only_on_empty_secret
        [of "[]" "''hi''" DivideByZero "''6263''" "[98, 99]"]
    by simp
qed

section \<open>Properties of address derivation\<close>

lemma length_array_bytes: "length (array_bytes h) = 32"
  by (simp add: array_bytes_def)

text \<open>
  C7: for public keys that are valid hex, \<open>GenerateAddress\<close> is a function of the key
  alone (the same key gives the same address), the address is the text \<open>chert_\<close>
  followed by the hex encoding of the first 20 bytes of the digest of the key bytes, so it
  always has the prefix and 46 characters, and two keys get the same address exactly when
  their truncated digests coincide. This holds whatever function the digest is.
\<close>

theorem GenerateAddress_properties:
  assumes "hex_DecodeString publicKey = Inr keyBytes"
    and "hex_DecodeString publicKey' = Inr keyBytes'"
  shows "\<exists>address address'.
           GenerateAddress sha256_Sum256 publicKey = Inr address
         \<and> GenerateAddress sha256_Sum256 publicKey' = Inr address'
         \<and> address = ''chert_'' @ hex_EncodeToString (take 20 (array_bytes (sha256_Sum256 keyBytes)))
         \<and> take 6 address = ''chert_''
         \<and> length address = 46
         \<and> (publicKey = publicKey' \<longrightarrow> address = address')
         \<and> (address = address'
              \<longleftrightarrow> take 20 (array_bytes (sha256_Sum256 keyBytes))
                  = take 20 (array_bytes (sha256_Sum256 keyBytes')))"
  using assms
  by (auto simp add: GenerateAddress_def length_hex_EncodeToString length_array_bytes
      hex_EncodeToString_inject)

theorem GenerateAddress_properties_witness:
  "\<exists>address address'.
     GenerateAddress (\<lambda>bs. of_nat (length bs)) ''00ff'' = Inr address
     \<and> GenerateAddress (\<lambda>bs. of_nat (length bs)) ''00FF'' = Inr address'
     \<and> take 6 address = ''chert_'' \<and> length address = 46 \<and> address = address'"
proof -
  have a: "hex_DecodeString ''00ff'' = Inr [0, 255]"
    by (simp add: fromHexChar_def)
  have b: "hex_DecodeString ''00FF'' = Inr [0, 255]"
    by (simp add: fromHexChar_def)
  show ?thesis
    using GenerateAddress_properties [OF a b, of "\<lambda>bs. of_nat (length bs)"] by auto
qed

section \<open>Properties of the RPC transport\<close>

lemma Marshal_new_request:
  "json_Marshal_request (new_request method params) =
     Inr (JObject ([(''jsonrpc'', JString ''2.0''), (''method'', JString (utf8_coerce method))]
            @ (case params of None \<Rightarrow> [] | Some v \<Rightarrow> [(''params'', coerce_json v)])
            @ [(''id'', JNumber 1)]))"
  by (simp add: json_Marshal_request_def new_request_def rune_len_def)


lemma canonical_Null_iff: "canonical v = JNull \<longleftrightarrow> v = JNull"
  by (cases v) simp_all






lemma canonical_Object: "canonical v = JObject ms' \<Longrightarrow> \<exists>ms. v = JObject ms"
  by (cases v) simp_all

lemma json_kind_canonical: "json_kind (canonical v) = json_kind v"
  by (cases v) (simp_all add: json_kind_def)






text \<open>
  C2: whenever the decoded response envelope carries an error object, \<open>Call\<close> returns
  exactly that object as its error, code and message unchanged, and the result slot is
  what it was before the call.
\<close>

theorem Call_returns_rpc_error:
  assumes "json_Marshal_request (new_request method params) = Inr requestBody"
    and "node requestBody = Decoded rpcResp"
    and "Error rpcResp = Some rpcErr"
  shows "Call node method params result = (Some (RPCErr rpcErr), result, [Posted requestBody])"
  using assms by (simp add: Call_def)

theorem Call_returns_rpc_error_witness:
  "Call node_rpc_error ''getBalance'' (Some (JArray [JString ''addrA'']))
      (BalanceSlot \<lparr>Available = ''1'', Pending = ''2'', Total = ''3''\<rparr>)
   = (Some (RPCErr \<lparr>Code = - 32601, Message = ''Method not found'', Data = JNull\<rparr>),
      BalanceSlot \<lparr>Available = ''1'', Pending = ''2'', Total = ''3''\<rparr>,
      [Posted (JObject [(''jsonrpc'', JString ''2.0''), (''method'', JString ''getBalance''),
                        (''params'', JArray [JString ''addrA'']), (''id'', JNumber 1)])])"
proof -
  have m: "json_Marshal_request (new_request ''getBalance'' (Some (JArray [JString ''addrA'']))) =
      Inr (JObject [(''jsonrpc'', JString ''2.0''), (''method'', JString ''getBalance''),
                    (''params'', JArray [JString ''addrA'']), (''id'', JNumber 1)])"
    by (simp add: Marshal_new_request rune_len_def)
  have n: "node_rpc_error (JObject [(''jsonrpc'', JString ''2.0''), (''method'', JString ''getBalance''),
                    (''params'', JArray [JString ''addrA'']), (''id'', JNumber 1)])
      = Decoded \<lparr>JSONRPC_resp = ''2.0'', Result = JNull,
              Error = Some \<lparr>Code = - 32601, Message = ''Method not found'', Data = JNull\<rparr>,
              ID_resp = JNumber 1\<rparr>"
    by (simp add: node_rpc_error_def)
  have e: "Error \<lparr>JSONRPC_resp = ''2.0'', Result = JNull,
              Error = Some \<lparr>Code = - 32601, Message = ''Method not found'', Data = JNull\<rparr>,
              ID_resp = JNumber 1\<rparr>
           = Some \<lparr>Code = - 32601, Message = ''Method not found'', Data = JNull\<rparr>"
    by simp
  show ?thesis
    by (rule Call_returns_rpc_error [where node = node_rpc_error, OF m n e])
qed













section \<open>Properties of transaction submission\<close>

text \<open>
  C5: with an account whose private key is empty, \<open>SendTransaction\<close> returns the local
  error "account does not have a private key", which is not an RPC error, whatever the
  node would answer, and neither signs nor posts anything.
\<close>

theorem SendTransaction_without_private_key:
  assumes "PrivateKey account = []"
  shows "SendTransaction node txid request account
           = (Inl (Errorf ''account does not have a private key''), [])
       \<and> fst (SendTransaction node txid request account) \<noteq> Inl (RPCErr rpcErr)"
  using assms by (simp add: SendTransaction_def)

theorem SendTransaction_without_private_key_witness:
  "PrivateKey watch_only_A = []
   \<and> SendTransaction node_hash ''u1'' request_B watch_only_A
       = (Inl (Errorf ''account does not have a private key''), [])"
proof -
  have k: "PrivateKey watch_only_A = []"
    by (simp add: watch_only_A_def)
  show ?thesis
    using k SendTransaction_without_private_key [OF k, of node_hash "''u1''" request_B]
    by simp
qed









section \<open>Properties of confirmation polling\<close>

lemma wait_loop_errors_diverge:
  assumes "\<forall>k. snd (get k) \<noteq> None" and "startTime < timeoutMs"
  shows "wait_loop get timeoutMs polls startTime = None"
proof (rule ccontr)
  assume "wait_loop get timeoutMs polls startTime \<noteq> None"
  then obtain y where "wait_loop get timeoutMs polls startTime = Some y" by blast
  then have "\<not> ((\<forall>k. snd (get k) \<noteq> None) \<and> startTime < timeoutMs)"
  proof (induction rule: wait_loop.raw_induct [rotated 1, consumes 1])
    case (1 loop get timeoutMs polls startTime y)
    show ?case
    proof
      assume a: "(\<forall>k. snd (get k) \<noteq> None) \<and> startTime < timeoutMs"
      then obtain tx err where g: "get polls = (tx, Some err)"
        by (cases "get polls") (metis not_None_eq snd_conv)
      with a "1.hyps" have "loop get timeoutMs (Suc polls) startTime = Some y" by simp
      from "1.IH" [OF this] a show False by blast
    qed
  qed
  with assms show False by blast
qed

text \<open>
  C1 does not hold of the code. A fetch that returns an error takes the \<open>continue\<close>
  branch, which skips the only statement that advances \<open>startTime\<close>; against a node
  whose every fetch fails, the loop condition stays true and \<open>WaitForTransaction\<close> never
  returns, whatever the budget.
\<close>

theorem WaitForTransaction_never_found_diverges:
  "WaitForTransaction never_found txHash timeoutMs = None"
  unfolding WaitForTransaction_def
  by (rule wait_loop_errors_diverge) (auto simp add: never_found_def word_greater_zero_iff)

lemma wait_loop_continue:
  assumes "startTime < timeoutMs" and "\<not> terminal (get polls)"
  shows "wait_loop get timeoutMs polls startTime
           = wait_loop get timeoutMs (Suc polls)
               (if snd (get polls) = None then startTime + 2000 else startTime)"
  using assms
  by (subst wait_loop.simps) (auto simp add: terminal_def split: prod.splits option.splits)

lemma wait_loop_reaches:
  assumes "\<forall>k<n. \<not> terminal (get k) \<and> elapsed get k < timeoutMs"
  shows "wait_loop get timeoutMs 0 0 = wait_loop get timeoutMs n (elapsed get n)"
  using assms
proof (induction n)
  case 0
  then show ?case by simp
next
  case (Suc n)
  then have "wait_loop get timeoutMs 0 0 = wait_loop get timeoutMs n (elapsed get n)" by simp
  also have "\<dots> = wait_loop get timeoutMs (Suc n) (elapsed get (Suc n))"
    using Suc.prems wait_loop_continue [of "elapsed get n" timeoutMs get n] by simp
  finally show ?case .
qed

text \<open>
  C6: when fetch number \<open>n\<close> is made (the earlier fetches did not end the loop and the
  budget is not used up) and succeeds, then a transaction with status \<open>confirmed\<close> is
  returned as it was fetched, without error, and a status \<open>failed\<close> or \<open>rejected\<close> gives
  the error "transaction " followed by that status and no transaction.
\<close>

theorem WaitForTransaction_terminal_status:
  assumes "\<forall>k<n. \<not> terminal (GetTransaction txHash k)
                 \<and> elapsed (GetTransaction txHash) k < (if timeoutMs = 0 then 60000 else timeoutMs)"
    and "elapsed (GetTransaction txHash) n < (if timeoutMs = 0 then 60000 else timeoutMs)"
    and "GetTransaction txHash n = (tx, None)"
  shows "(Status tx = TxStatusConfirmed \<longrightarrow>
            WaitForTransaction GetTransaction txHash timeoutMs
              = Some (Inr tx, Suc n, elapsed (GetTransaction txHash) n))
       \<and> (Status tx = TxStatusFailed \<or> Status tx = TxStatusRejected \<longrightarrow>
            WaitForTransaction GetTransaction txHash timeoutMs
              = Some (Inl (Errorf (''transaction '' @ Status tx)), Suc n,
                      elapsed (GetTransaction txHash) n))"
proof -
  let ?T = "if timeoutMs = 0 then 60000 else timeoutMs"
  have "WaitForTransaction GetTransaction txHash timeoutMs
          = wait_loop (GetTransaction txHash) ?T n (elapsed (GetTransaction txHash) n)"
    unfolding WaitForTransaction_def using assms(1) by (rule wait_loop_reaches)
  also have "\<dots> = (if Status tx = TxStatusConfirmed
                     then Some (Inr tx, Suc n, elapsed (GetTransaction txHash) n)
                     else if Status tx = TxStatusFailed \<or> Status tx = TxStatusRejected
                     then Some (Inl (Errorf (''transaction '' @ Status tx)), Suc n,
                                elapsed (GetTransaction txHash) n)
                     else wait_loop (GetTransaction txHash) ?T (Suc n)
                            (elapsed (GetTransaction txHash) n + 2000))"
    using assms(2,3) by (subst wait_loop.simps) simp
  finally show ?thesis
    by (auto simp add: TxStatusConfirmed_def TxStatusFailed_def TxStatusRejected_def)
qed

theorem WaitForTransaction_terminal_status_witness:
  "WaitForTransaction confirmed_on_third_fetch ''0xabc'' 0
     = Some (Inr (tx_with_status ''confirmed''), 3, 2000)
   \<and> WaitForTransaction failed_on_first_fetch ''0xabc'' 5000
     = Some (Inl (Errorf ''transaction failed''), 1, 0)"
proof -
  have e: "elapsed (confirmed_on_third_fetch ''0xabc'') (Suc (Suc 0)) = 2000"
    by (simp add: confirmed_on_third_fetch_def)
  have a: "\<forall>k<Suc (Suc 0). \<not> terminal (confirmed_on_third_fetch ''0xabc'' k)
            \<and> elapsed (confirmed_on_third_fetch ''0xabc'') k < (if (0::64 word) = 0 then 60000 else 0)"
    by (simp add: less_Suc_eq confirmed_on_third_fetch_def terminal_def tx_with_status_def
        TxStatusConfirmed_def TxStatusFailed_def TxStatusRejected_def)
  have b: "elapsed (confirmed_on_third_fetch ''0xabc'') (Suc (Suc 0)) < (if (0::64 word) = 0 then 60000 else 0)"
    by (simp add: e)
  have c: "confirmed_on_third_fetch ''0xabc'' (Suc (Suc 0)) = (tx_with_status ''confirmed'', None)"
    by (simp add: confirmed_on_third_fetch_def)
  have s: "Status (tx_with_status ''confirmed'') = TxStatusConfirmed"
    by (simp add: tx_with_status_def TxStatusConfirmed_def)
  have 1: "WaitForTransaction confirmed_on_third_fetch ''0xabc'' 0
     = Some (Inr (tx_with_status ''confirmed''), 3, 2000)"
    using WaitForTransaction_terminal_status
        [where GetTransaction = confirmed_on_third_fetch and txHash = "''0xabc''", OF a b c] s e
    by (simp add: numeral_3_eq_3)
  have a': "\<forall>k<0. \<not> terminal (failed_on_first_fetch ''0xabc'' k)
            \<and> elapsed (failed_on_first_fetch ''0xabc'') k < (if (5000::64 word) = 0 then 60000 else 5000)"
    by simp
  have b': "elapsed (failed_on_first_fetch ''0xabc'') 0 < (if (5000::64 word) = 0 then 60000 else 5000)"
    by simp
  have c': "failed_on_first_fetch ''0xabc'' 0 = (tx_with_status ''failed'', None)"
    by (simp add: failed_on_first_fetch_def)
  have s': "Status (tx_with_status ''failed'') = TxStatusFailed"
    by (simp add: tx_with_status_def TxStatusFailed_def)
  have 2: "WaitForTransaction failed_on_first_fetch ''0xabc'' 5000
     = Some (Inl (Errorf ''transaction failed''), 1, 0)"
    using WaitForTransaction_terminal_status
        [where GetTransaction = failed_on_first_fetch and txHash = "''0xabc''", OF a' b' c'] s'
    by (simp add: tx_with_status_def TxStatusFailed_def)
  from 1 2 show ?thesis by blast
qed

text \<open>
  What does hold of the timeout: when every fetch succeeds with a status that is not
  terminal and the budget is at most \<open>2^64 - 2000\<close>, the call returns the timeout error
  after one fetch per 2000 units, having passed the budget by less than one interval.
\<close>

lemma wait_loop_pending_times_out:
  assumes "\<forall>k. snd (get k) = None \<and> \<not> terminal (get k)"
    and "unat timeoutMs + 2000 \<le> 2 ^ 64"
    and "unat startTime < unat timeoutMs + 2000"
  shows "\<exists>n t. wait_loop get timeoutMs polls startTime
                  = Some (Inl (Errorf ''transaction confirmation timeout''), n, t)
             \<and> timeoutMs \<le> t \<and> unat t < unat timeoutMs + 2000
             \<and> polls \<le> n \<and> unat t = unat startTime + 2000 * (n - polls)"
  using assms(3)
proof (induction "unat timeoutMs - unat startTime" arbitrary: startTime polls rule: less_induct)
  case less
  show ?case
  proof (cases "startTime < timeoutMs")
    case False
    then have "wait_loop get timeoutMs polls startTime
                 = Some (Inl (Errorf ''transaction confirmation timeout''), polls, startTime)"
      by (subst wait_loop.simps) simp
    with False less.prems show ?thesis by (simp add: not_less)
  next
    case True
    then have lt: "unat startTime < unat timeoutMs" by (simp add: word_less_nat_alt)
    with assms(2) have u: "unat (startTime + 2000) = unat startTime + 2000"
      by (simp add: unat_add_lem [THEN iffD1])
    have step: "wait_loop get timeoutMs polls startTime
                  = wait_loop get timeoutMs (Suc polls) (startTime + 2000)"
      using wait_loop_continue [OF True, of get polls] assms(1) by simp
    have "unat timeoutMs - unat (startTime + 2000) < unat timeoutMs - unat startTime"
      using lt u by simp
    moreover have "unat (startTime + 2000) < unat timeoutMs + 2000"
      using lt u by simp
    ultimately obtain n t where
      r: "wait_loop get timeoutMs (Suc polls) (startTime + 2000)
            = Some (Inl (Errorf ''transaction confirmation timeout''), n, t)"
      and b: "timeoutMs \<le> t" "unat t < unat timeoutMs + 2000" "Suc polls \<le> n"
        "unat t = unat (startTime + 2000) + 2000 * (n - Suc polls)"
      using less.hyps [of "startTime + 2000" "Suc polls"] by blast
    have "unat t = unat startTime + 2000 * (n - polls)"
      using b(3,4) u by (simp add: Suc_diff_le algebra_simps) 
    with r b step show ?thesis by auto
  qed
qed

lemma WaitForTransaction_pending_times_out:
  assumes "\<forall>k. snd (GetTransaction txHash k) = None \<and> \<not> terminal (GetTransaction txHash k)"
    and "unat timeoutMs + 2000 \<le> 2 ^ 64"
  shows "\<exists>n t. WaitForTransaction GetTransaction txHash timeoutMs
                  = Some (Inl (Errorf ''transaction confirmation timeout''), n, t)
             \<and> unat t = 2000 * n
             \<and> unat (if timeoutMs = 0 then 60000 else timeoutMs) \<le> unat t
             \<and> unat t < unat (if timeoutMs = 0 then 60000 else timeoutMs) + 2000"
proof -
  let ?T = "if timeoutMs = 0 then 60000 else timeoutMs"
  have "unat ?T + 2000 \<le> 2 ^ 64" using assms(2) by simp
  from wait_loop_pending_times_out [OF assms(1) this, of 0 0]
  show ?thesis
    unfolding WaitForTransaction_def by (auto simp add: word_le_nat_alt)
qed

text \<open>
  Beyond that bound \<open>startTime\<close> wraps around: with the largest budget it stays even
  and never reaches the budget.
\<close>

lemma wait_loop_max_budget_diverges:
  assumes "\<forall>k. snd (get k) = None \<and> \<not> terminal (get k)" and "even startTime"
  shows "wait_loop get (- 1) polls startTime = None"
proof (rule ccontr)
  assume "wait_loop get (- 1) polls startTime \<noteq> None"
  then obtain y where "wait_loop get (- 1) polls startTime = Some y" by blast
  moreover have "\<not> ((\<forall>k. snd (get k) = None \<and> \<not> terminal (get k)) \<and> even startTime
               \<and> timeoutMs = - 1)"
    if "wait_loop get timeoutMs polls startTime = Some y" for timeoutMs
    using that
  proof (induction rule: wait_loop.raw_induct [rotated 1, consumes 1])
    case (1 loop get timeoutMs polls startTime y)
    show ?case
    proof
      assume a: "(\<forall>k. snd (get k) = None \<and> \<not> terminal (get k)) \<and> even startTime
                 \<and> timeoutMs = - 1"
      then have "startTime \<noteq> - 1" by auto
      then have lt: "startTime < timeoutMs" using a by (simp add: word_order.not_eq_extremum)
      have "snd (get polls) = None" using a by blast
      then obtain tx where g: "get polls = (tx, None)"
        by (cases "get polls") simp
      have nt: "\<not> terminal (get polls)" using a by blast
      from "1.hyps" lt g nt have "loop get timeoutMs (Suc polls) (startTime + 2000) = Some y"
        by (auto simp add: terminal_def split: if_splits)
      from "1.IH" [OF this] a show False by simp
    qed
  qed
  ultimately show False using assms by blast
qed

lemma WaitForTransaction_max_budget_diverges:
  "WaitForTransaction always_pending txHash (- 1) = None"
  unfolding WaitForTransaction_def
  by (simp, rule wait_loop_max_budget_diverges)
    (simp_all add: always_pending_def terminal_def tx_with_status_def
      TxStatusConfirmed_def TxStatusFailed_def TxStatusRejected_def)

end
